theory Spec2Isabelle
  imports Complex_Main
begin

section \<open>Position detail routes: data\<close>

text \<open>
  The model follows \<^verbatim>\<open>src/api/routes/position_routes.py\<close>. Python floats are
  idealised as reals: every arithmetic step of the source is the exact operation here,
  and rounding is not modelled. Decoded JSON objects and SQL rows are records; a key that
  the source reads with \<^verbatim>\<open>d.get(k, default)\<close> is an optional field, \<open>None\<close>
  standing for the absent key. Numeric JSON fields are taken as decoded: a row that
  \<^verbatim>\<open>float(...)\<close> rejects raises inside the same \<^verbatim>\<open>try\<close> as the request,
  which the constructor \<open>Raised\<close> below covers.
\<close>

datatype py_error = ZeroDivisionError | DatabaseError

text \<open>\<^verbatim>\<open>d.get(k, default)\<close> on an optional field.\<close>

definition get_or :: "'a option \<Rightarrow> 'a \<Rightarrow> 'a" where
  "get_or v d = (case v of None \<Rightarrow> d | Some x \<Rightarrow> x)"

text \<open>Python truthiness of an id or text value: \<^verbatim>\<open>None\<close> and the empty string are false.\<close>

definition truthy :: "string option \<Rightarrow> bool" where
  "truthy v = (case v of None \<Rightarrow> False | Some s \<Rightarrow> s \<noteq> [])"

text \<open>\<^verbatim>\<open>str(d.get(k))\<close>: the absent key prints as \<^verbatim>\<open>None\<close>.\<close>

definition str_of :: "string option \<Rightarrow> string" where
  "str_of v = (case v of None \<Rightarrow> ''None'' | Some s \<Rightarrow> s)"

text \<open>\<^verbatim>\<open>sub in s\<close> on strings.\<close>

fun starts_with :: "string \<Rightarrow> string \<Rightarrow> bool" where
  "starts_with s [] = True"
| "starts_with [] (c # sub) = False"
| "starts_with (d # s) (c # sub) = (d = c \<and> starts_with s sub)"

fun str_contains :: "string \<Rightarrow> string \<Rightarrow> bool" where
  "str_contains [] sub = (sub = [])"
| "str_contains (d # s) sub = (starts_with (d # s) sub \<or> str_contains s sub)"

text \<open>
  The outcome of \<^verbatim>\<open>make_authenticated_request\<close> followed by \<^verbatim>\<open>response.json()\<close>:
  an exception anywhere on the way, or a status code with the decoded body (the body is
  read only where the source reads it).
\<close>

datatype 'a http = Raised | Response nat 'a

text \<open>One element of \<^verbatim>\<open>/fapi/v2/positionRisk\<close>.\<close>

record exchange_position =
  pos_symbol :: string
  positionAmt :: "real option"
  entryPrice :: "real option"
  markPrice :: "real option"
  pos_leverage :: "real option"
  initialMargin :: "real option"
  positionSide :: "string option"

text \<open>A row of \<^verbatim>\<open>position_tranches\<close>.\<close>

record tranche =
  tranche_id :: int
  symbol :: string
  position_side :: string
  total_quantity :: real
  avg_entry_price :: real
  tp_order_id :: "string option"
  sl_order_id :: "string option"
  unrealized_pnl :: real

text \<open>A row of \<^verbatim>\<open>order_relationships\<close>; SQL \<^verbatim>\<open>NULL\<close> is \<open>None\<close>.\<close>

record order_relationship =
  rel_symbol :: string
  rel_position_side :: "string option"
  rel_tranche_id :: "int option"
  rel_tp_order_id :: "string option"
  rel_sl_order_id :: "string option"
  created_at :: int

text \<open>A row of \<^verbatim>\<open>order_status\<close>.\<close>

record order_status_row =
  os_order_id :: string
  os_symbol :: string
  os_side :: "string option"
  os_quantity :: real
  os_price :: "string option"
  os_position_side :: "string option"
  os_status :: "string option"

text \<open>One element of \<^verbatim>\<open>/fapi/v1/openOrders\<close>.\<close>

record open_order =
  orderId :: "string option"
  oo_type :: "string option"
  oo_status :: "string option"
  origQty :: "real option"
  oo_price :: "string option"
  stopPrice :: "string option"
  oo_side :: "string option"
  executedQty :: "real option"

text \<open>A value of the \<^verbatim>\<open>order_statuses\<close> dictionary.\<close>

record order_status_view =
  ov_order_id :: string
  ov_status :: "string option"
  ov_quantity :: real
  ov_price :: "string option"
  ov_side :: "string option"
  ov_type :: string
  ov_executed_qty :: real

text \<open>
  \<^verbatim>\<open>src.utils.config.config\<close>: the per-symbol settings (of which only the leverage is
  read) and the simulation flag.
\<close>

record symbol_settings =
  cfg_leverage :: "int option"

record config =
  SYMBOL_SETTINGS :: "string \<rightharpoonup> symbol_settings"
  SIMULATE_ONLY :: bool

record summary =
  summary_total_quantity :: real
  summary_avg_entry_price :: real
  summary_unrealized_pnl :: real
  summary_total_margin :: real
  num_tranches :: nat

text \<open>
  The answer of the read. Its remaining keys (\<^verbatim>\<open>trades\<close>, and the constant empty
  \<^verbatim>\<open>open_orders\<close> and \<^verbatim>\<open>current_positions\<close>) depend on nothing modelled here and
  nothing below depends on them.
\<close>

record response =
  resp_symbol :: string
  resp_side :: string
  resp_summary :: summary
  resp_tranches :: "tranche list"
  resp_order_relationships :: "order_relationship list"
  resp_order_statuses :: "string \<rightharpoonup> order_status_view"

text \<open>
  Everything a read depends on: the credentials, what the two exchange requests answer,
  the ledger tables, and the configuration module (\<open>None\<close> when importing it raises).
\<close>

record read_env =
  API_KEY :: string
  API_SECRET :: string
  position_risk :: "exchange_position list http"
  open_orders :: "open_order list http"
  has_position_tranches :: bool
  position_tranches :: "tranche list"
  order_relationships :: "order_relationship list"
  order_status :: "order_status_row list"
  read_config :: "config option"

text \<open>The body of the order request (\<^verbatim>\<open>quantity\<close> before \<^verbatim>\<open>str\<close>).\<close>

record order_data =
  od_symbol :: string
  od_side :: string
  od_type :: string
  od_quantity :: real
  od_positionSide :: string
  reduceOnly :: "string option"

text \<open>The exchange's answer to the order request: the decoded body and its text.\<close>

record order_result =
  res_orderId :: "string option"
  avgPrice :: "real option"

record order_reply =
  reply_json :: order_result
  reply_text :: string

text \<open>The arguments of \<^verbatim>\<open>insert_trade\<close>.\<close>

record trade_row =
  tr_symbol :: string
  tr_order_id :: string
  tr_side :: string
  tr_qty :: real
  tr_price :: real
  tr_status :: string
  tr_response :: order_result
  tr_order_type :: string
  tr_parent_order_id :: "string option"
  tr_filled_qty :: real
  tr_avg_price :: real

text \<open>
  The calls a route makes to the exchange (\<open>GetPositionRisk\<close>, \<open>GetOpenOrders\<close>,
  \<open>PostOrder\<close>), to the order-status cache and to the trade ledger.
\<close>

datatype call =
    GetPositionRisk
  | GetOpenOrders string
  | SelectOrderStatus string
  | PostOrder order_data
  | InsertTrade trade_row

text \<open>
  The answer of \<^verbatim>\<open>close_position\<close>: the keys of its JSON object (an absent key is
  \<open>None\<close>), the error message by kind, and the HTTP status.
\<close>

datatype close_error =
    FetchFailed nat
  | PositionNotFound
  | NoPositionSize
  | OrderFailed string
  | InternalError

record close_result =
  success :: bool
  simulated :: "bool option"
  res_order_id :: "string option"
  res_order_side :: "string option"
  res_quantity :: "real option"
  error :: "close_error option"
  status_code :: nat

text \<open>
  Everything a close depends on: what the two exchange requests answer, the configuration
  module (\<open>None\<close> when importing it raises), and whether writing the trade raises.
\<close>

record close_env =
  close_position_risk :: "exchange_position list http"
  close_config :: "config option"
  order_response :: "order_reply http"
  insert_trade_raises :: bool

section \<open>\<^verbatim>\<open>get_position_details\<close>\<close>

text \<open>
  Lines 19 to 28: the first element of the answer whose symbol is the requested one and
  whose amount is not zero. The requested side takes no part in the search. A failed
  request, or a status other than 200, leaves \<open>None\<close>.
\<close>

definition find_exchange_position ::
  "string \<Rightarrow> exchange_position list http \<Rightarrow> exchange_position option" where
  "find_exchange_position symb r =
     (case r of
        Raised \<Rightarrow> None
      | Response code positions \<Rightarrow>
          if code = 200
          then List.find (\<lambda>p. pos_symbol p = symb \<and> get_or (positionAmt p) 0 \<noteq> 0) positions
          else None)"

text \<open>
  Lines 40 to 53: the tranches of the symbol and side, by ascending \<^verbatim>\<open>tranche_id\<close>.
  The two columns the query joins in from \<^verbatim>\<open>trades\<close> (\<^verbatim>\<open>filled_qty\<close>,
  \<^verbatim>\<open>actual_entry_price\<close>) are read by nothing in the route and are left out.
\<close>

definition select_tranches :: "string \<Rightarrow> string \<Rightarrow> tranche list \<Rightarrow> tranche list" where
  "select_tranches symb side rows =
     sort_key tranche_id (filter (\<lambda>t. symbol t = symb \<and> position_side t = side) rows)"

text \<open>
  \<^verbatim>\<open>ORDER BY created_at DESC LIMIT 1\<close>: the row with the greatest \<^verbatim>\<open>created_at\<close>
  (among equal ones SQLite promises nothing; the model takes the first in table order).
\<close>

fun newest :: "order_relationship list \<Rightarrow> order_relationship option" where
  "newest [] = None"
| "newest (r # rs) =
     (case newest rs of
        None \<Rightarrow> Some r
      | Some b \<Rightarrow> if created_at r < created_at b then Some b else Some r)"

text \<open>Lines 61 to 70: the most recent relationship row of a tranche that carries an id.\<close>

definition latest_relationship ::
  "string \<Rightarrow> string \<Rightarrow> int \<Rightarrow> order_relationship list \<Rightarrow> order_relationship option" where
  "latest_relationship symb side tid rows =
     newest (filter (\<lambda>r. rel_symbol r = symb \<and> rel_position_side r = Some side
                        \<and> rel_tranche_id r = Some tid
                        \<and> (rel_tp_order_id r \<noteq> None \<or> rel_sl_order_id r \<noteq> None)) rows)"

text \<open>Lines 71 to 77: the row fills in the ids the tranche does not have.\<close>

definition update_tranche :: "string \<Rightarrow> string \<Rightarrow> order_relationship list \<Rightarrow> tranche \<Rightarrow> tranche" where
  "update_tranche symb side rows t =
     (case latest_relationship symb side (tranche_id t) rows of
        None \<Rightarrow> t
      | Some rel_dict \<Rightarrow>
          t\<lparr>tp_order_id :=
               (if \<not> truthy (tp_order_id t) \<and> truthy (rel_tp_order_id rel_dict)
                then rel_tp_order_id rel_dict else tp_order_id t),
            sl_order_id :=
               (if \<not> truthy (sl_order_id t) \<and> truthy (rel_sl_order_id rel_dict)
                then rel_sl_order_id rel_dict else sl_order_id t)\<rparr>)"

text \<open>Lines 32 to 86: the tranche list of the answer.\<close>

definition load_tranches ::
  "string \<Rightarrow> string \<Rightarrow> read_env \<Rightarrow> exchange_position option \<Rightarrow> tranche list" where
  "load_tranches symb side env exchange_position =
     (if has_position_tranches env
      then
        (let tranches = map (update_tranche symb side (order_relationships env))
                            (select_tranches symb side (position_tranches env))
         in if exchange_position \<noteq> None
            then map (\<lambda>t. t\<lparr>unrealized_pnl := 0\<rparr>) tranches
            else tranches)
      else [])"

text \<open>
  Lines 107 to 124: the query keeps the rows of the symbol whose side is the requested
  one or \<^verbatim>\<open>NULL\<close>, newest first; the loop then keeps those whose side is the requested
  one (the column is always a key of the row).
\<close>

definition select_order_relationships ::
  "string \<Rightarrow> string \<Rightarrow> order_relationship list \<Rightarrow> order_relationship list" where
  "select_order_relationships symb side rows =
     (let all_order_rels =
            rev (sort_key created_at
                   (filter (\<lambda>r. rel_symbol r = symb
                                 \<and> (rel_position_side r = Some side \<or> rel_position_side r = None)) rows))
      in filter (\<lambda>rel. rel_position_side rel = Some side) all_order_rels)"

text \<open>
  Lines 131 to 153: the id sets, as lists (only membership is ever asked of them).
\<close>

definition collect_tp_order_ids :: "tranche list \<Rightarrow> order_relationship list \<Rightarrow> string list" where
  "collect_tp_order_ids tranches rels =
     map (\<lambda>t. str_of (tp_order_id t)) (filter (\<lambda>t. truthy (tp_order_id t)) tranches)
     @ map (\<lambda>r. str_of (rel_tp_order_id r)) (filter (\<lambda>r. truthy (rel_tp_order_id r)) rels)"

definition collect_sl_order_ids :: "tranche list \<Rightarrow> order_relationship list \<Rightarrow> string list" where
  "collect_sl_order_ids tranches rels =
     map (\<lambda>t. str_of (sl_order_id t)) (filter (\<lambda>t. truthy (sl_order_id t)) tranches)
     @ map (\<lambda>r. str_of (rel_sl_order_id r)) (filter (\<lambda>r. truthy (rel_sl_order_id r)) rels)"

definition collect_tp_sl_order_ids :: "tranche list \<Rightarrow> order_relationship list \<Rightarrow> string list" where
  "collect_tp_sl_order_ids tranches rels =
     collect_tp_order_ids tranches rels @ collect_sl_order_ids tranches rels"

text \<open>Lines 163 to 191: one open order of the exchange's answer.\<close>

definition add_open_order ::
  "string list \<Rightarrow> string list \<Rightarrow> open_order \<Rightarrow>
   (string \<rightharpoonup> order_status_view) \<Rightarrow> (string \<rightharpoonup> order_status_view)" where
  "add_open_order tp_order_ids sl_order_ids order order_statuses =
     (let order_id = str_of (orderId order);
          order_type = get_or (oo_type order) '''';
          order_status = get_or (oo_status order) ''''
      in if str_contains order_type ''TAKE_PROFIT'' \<or> str_contains order_type ''STOP''
            \<or> order_id \<in> set (tp_order_ids @ sl_order_ids)
         then
           (let effective_type =
                  (if order_id \<in> set tp_order_ids \<and> order_type = ''LIMIT'' then ''TP_LIMIT''
                   else if order_id \<in> set sl_order_ids \<and> str_contains order_type ''STOP''
                   then ''SL_STOP''
                   else order_type)
            in order_statuses(order_id \<mapsto>
                 \<lparr>ov_order_id = order_id,
                  ov_status = Some order_status,
                  ov_quantity = get_or (origQty order) 0,
                  ov_price = (if truthy (oo_price order) then oo_price order else stopPrice order),
                  ov_side = oo_side order,
                  ov_type = effective_type,
                  ov_executed_qty = get_or (executedQty order) 0\<rparr>))
         else order_statuses)"

text \<open>Lines 158 to 198: the open orders, when the request answers 200.\<close>

definition add_open_orders ::
  "string list \<Rightarrow> string list \<Rightarrow> open_order list http \<Rightarrow> (string \<rightharpoonup> order_status_view)" where
  "add_open_orders tp_order_ids sl_order_ids r =
     (case r of
        Raised \<Rightarrow> Map.empty
      | Response code open_orders_data \<Rightarrow>
          if code = 200
          then foldl (\<lambda>m order. add_open_order tp_order_ids sl_order_ids order m)
                     Map.empty open_orders_data
          else Map.empty)"

text \<open>
  Lines 210 to 230: one row of the order-status cache. The row always has the key
  \<^verbatim>\<open>status\<close>, so \<^verbatim>\<open>get\<close> returns the column's value, \<^verbatim>\<open>NULL\<close> included.
\<close>

definition add_db_order ::
  "string list \<Rightarrow> string list \<Rightarrow> order_status_row \<Rightarrow>
   (string \<rightharpoonup> order_status_view) \<Rightarrow> (string \<rightharpoonup> order_status_view)" where
  "add_db_order tp_order_ids sl_order_ids order_dict order_statuses =
     (let order_id = os_order_id order_dict
      in if order_statuses order_id = None
         then
           (let order_type =
                  (if order_id \<in> set tp_order_ids then ''TP_ORDER''
                   else if order_id \<in> set sl_order_ids then ''SL_ORDER''
                   else ''TP/SL'')
            in order_statuses(order_id \<mapsto>
                 \<lparr>ov_order_id = order_id,
                  ov_status = os_status order_dict,
                  ov_quantity = os_quantity order_dict,
                  ov_price = os_price order_dict,
                  ov_side = os_side order_dict,
                  ov_type = order_type,
                  ov_executed_qty = 0\<rparr>))
         else order_statuses)"

text \<open>Lines 201 to 209: the cached rows of the symbol whose id is in the id set.\<close>

definition select_order_status :: "string \<Rightarrow> string list \<Rightarrow> order_status_row list \<Rightarrow> order_status_row list" where
  "select_order_status symb ids rows =
     filter (\<lambda>row. os_symbol row = symb \<and> os_order_id row \<in> set ids) rows"

text \<open>
  Lines 127 to 237: the dictionary of order statuses and the calls made for it. Without
  both credentials nothing is asked of the exchange or of the cache.
\<close>

definition load_order_statuses ::
  "string \<Rightarrow> read_env \<Rightarrow> tranche list \<Rightarrow> order_relationship list \<Rightarrow>
   call list \<times> (string \<rightharpoonup> order_status_view)" where
  "load_order_statuses symb env tranches rels =
     (let tp_order_ids = collect_tp_order_ids tranches rels;
          sl_order_ids = collect_sl_order_ids tranches rels;
          tp_sl_order_ids = collect_tp_sl_order_ids tranches rels
      in if API_KEY env \<noteq> [] \<and> API_SECRET env \<noteq> []
         then
           (let live = add_open_orders tp_order_ids sl_order_ids (open_orders env)
            in if tp_sl_order_ids \<noteq> []
               then ([GetOpenOrders symb, SelectOrderStatus symb],
                     foldl (\<lambda>m row. add_db_order tp_order_ids sl_order_ids row m) live
                           (select_order_status symb tp_sl_order_ids (order_status env)))
               else ([GetOpenOrders symb], live))
         else ([], Map.empty))"

text \<open>Python's \<^verbatim>\<open>/\<close> on floats raises on a zero divisor.\<close>

definition py_div :: "real \<Rightarrow> real \<Rightarrow> py_error + real" where
  "py_div a b = (if b = 0 then Inl ZeroDivisionError else Inr (a / b))"

text \<open>Lines 269 to 275: the leverage of the symbol, 10 where the configuration has none.\<close>

definition config_leverage :: "config option \<Rightarrow> string \<Rightarrow> int" where
  "config_leverage cfg symb =
     (case cfg of
        None \<Rightarrow> 10
      | Some c \<Rightarrow>
          (case SYMBOL_SETTINGS c symb of
             None \<Rightarrow> 10
           | Some s \<Rightarrow> get_or (cfg_leverage s) 10))"

text \<open>Lines 240 to 282: the four aggregate figures.\<close>

definition aggregate ::
  "string \<Rightarrow> config option \<Rightarrow> exchange_position option \<Rightarrow> tranche list \<Rightarrow> py_error + summary" where
  "aggregate symb cfg exchange_position tranches =
     (case exchange_position of
        Some p \<Rightarrow>
          (let entry_price = get_or (entryPrice p) 0;
               mark_price = get_or (markPrice p) 0;
               position_amt = get_or (positionAmt p) 0;
               total_unrealized_pnl =
                 (if position_amt > 0 then (mark_price - entry_price) * position_amt
                  else if position_amt < 0 then (entry_price - mark_price) * \<bar>position_amt\<bar>
                  else 0)
           in Inr \<lparr>summary_total_quantity = \<bar>position_amt\<bar>,
                   summary_avg_entry_price = entry_price,
                   summary_unrealized_pnl = total_unrealized_pnl,
                   summary_total_margin = get_or (initialMargin p) 0,
                   num_tranches = length tranches\<rparr>)
      | None \<Rightarrow>
          if tranches \<noteq> []
          then
            (let total_quantity' = sum_list (map total_quantity tranches);
                 leverage = config_leverage cfg symb
             in case (if total_quantity' > 0
                      then py_div (sum_list (map (\<lambda>t. avg_entry_price t * total_quantity t) tranches))
                                  total_quantity'
                      else Inr 0) of
                  Inl e \<Rightarrow> Inl e
                | Inr avg_entry_price' \<Rightarrow>
                    (case (if leverage > 0
                           then py_div (total_quantity' * avg_entry_price') (real_of_int leverage)
                           else Inr 0) of
                       Inl e \<Rightarrow> Inl e
                     | Inr total_margin \<Rightarrow>
                         Inr \<lparr>summary_total_quantity = total_quantity',
                              summary_avg_entry_price = avg_entry_price',
                              summary_unrealized_pnl = sum_list (map unrealized_pnl tranches),
                              summary_total_margin = total_margin,
                              num_tranches = length tranches\<rparr>))
          else Inr \<lparr>summary_total_quantity = 0,
                    summary_avg_entry_price = 0,
                    summary_unrealized_pnl = 0,
                    summary_total_margin = 0,
                    num_tranches = length tranches\<rparr>)"

text \<open>The route: the calls it makes, and its answer or the error it raises.\<close>

definition get_position_details ::
  "string \<Rightarrow> string \<Rightarrow> read_env \<Rightarrow> call list \<times> (py_error + response)" where
  "get_position_details symb side env =
     (let exchange_position = find_exchange_position symb (position_risk env);
          tranches = load_tranches symb side env exchange_position;
          rels = select_order_relationships symb side (order_relationships env);
          (calls, order_statuses) = load_order_statuses symb env tranches rels
      in (GetPositionRisk # calls,
          (case aggregate symb (read_config env) exchange_position tranches of
             Inl e \<Rightarrow> Inl e
           | Inr s \<Rightarrow>
               Inr \<lparr>resp_symbol = symb,
                    resp_side = side,
                    resp_summary = s,
                    resp_tranches = tranches,
                    resp_order_relationships = rels,
                    resp_order_statuses = order_statuses\<rparr>)))"

section \<open>\<^verbatim>\<open>close_position\<close>\<close>

text \<open>Lines 315 to 331: the first position of the symbol, with a non-zero amount, on the side asked.\<close>

fun find_target :: "string \<Rightarrow> string \<Rightarrow> exchange_position list \<Rightarrow> exchange_position option" where
  "find_target symb side [] = None"
| "find_target symb side (pos # positions) =
     (let position_amt = get_or (positionAmt pos) 0
      in if pos_symbol pos = symb \<and> position_amt \<noteq> 0
         then
           (if side \<noteq> ''BOTH''
            then
              (let current_side = (if position_amt > 0 then ''LONG'' else ''SHORT'')
               in if current_side = side then Some pos else find_target symb side positions)
            else Some pos)
         else find_target symb side positions)"

text \<open>Lines 341 to 363: the order that closes a position.\<close>

definition closing_order :: "string \<Rightarrow> exchange_position \<Rightarrow> order_data" where
  "closing_order symb target_position =
     (let position_amt = get_or (positionAmt target_position) 0;
          quantity = \<bar>position_amt\<bar>;
          current_side = (if position_amt > 0 then ''LONG'' else ''SHORT'');
          order_side = (if current_side = ''LONG'' then ''SELL'' else ''BUY'');
          position_side = get_or (positionSide target_position) ''BOTH''
      in \<lparr>od_symbol = symb,
          od_side = order_side,
          od_type = ''MARKET'',
          od_quantity = quantity,
          od_positionSide = position_side,
          reduceOnly = (if position_side = ''BOTH'' then Some ''true'' else None)\<rparr>)"

text \<open>Lines 366 to 377: a configuration that cannot be read counts as not simulating.\<close>

definition simulate_only :: "config option \<Rightarrow> bool" where
  "simulate_only cfg = (case cfg of None \<Rightarrow> False | Some c \<Rightarrow> SIMULATE_ONLY c)"

definition failure :: "close_error \<Rightarrow> nat \<Rightarrow> close_result" where
  "failure e code =
     \<lparr>success = False, simulated = None, res_order_id = None, res_order_side = None,
      res_quantity = None, error = Some e, status_code = code\<rparr>"

text \<open>
  Lines 387 to 392: opening the ledger and writing the trade, which may raise.
\<close>

definition insert_trade :: "close_env \<Rightarrow> trade_row \<Rightarrow> py_error + unit" where
  "insert_trade env row = (if insert_trade_raises env then Inl DatabaseError else Inr ())"

text \<open>Lines 396 to 403: the answer for an accepted order.\<close>

definition accepted :: "string \<Rightarrow> order_data \<Rightarrow> close_result" where
  "accepted order_id order =
     \<lparr>success = True, simulated = None, res_order_id = Some order_id,
      res_order_side = Some (od_side order), res_quantity = Some (od_quantity order),
      error = None, status_code = 200\<rparr>"

text \<open>
  The route: the calls it makes, in order, and its answer. An exception outside the inner
  \<^verbatim>\<open>try\<close> blocks is the answer 500; the one around \<^verbatim>\<open>insert_trade\<close> prints and goes on.
\<close>

definition close_position :: "string \<Rightarrow> string \<Rightarrow> close_env \<Rightarrow> call list \<times> close_result" where
  "close_position symb side env =
     (case close_position_risk env of
        Raised \<Rightarrow> ([GetPositionRisk], failure InternalError 500)
      | Response code positions \<Rightarrow>
          if code \<noteq> 200 then ([GetPositionRisk], failure (FetchFailed code) code)
          else
            (case find_target symb side positions of
               None \<Rightarrow> ([GetPositionRisk], failure PositionNotFound 404)
             | Some target_position \<Rightarrow>
                 if get_or (positionAmt target_position) 0 = 0
                 then ([GetPositionRisk], failure NoPositionSize 400)
                 else
                   (let order = closing_order symb target_position
                    in if simulate_only (close_config env)
                       then ([GetPositionRisk],
                             \<lparr>success = True, simulated = Some True, res_order_id = None,
                              res_order_side = None, res_quantity = None, error = None,
                              status_code = 200\<rparr>)
                       else
                         (case order_response env of
                            Raised \<Rightarrow> ([GetPositionRisk, PostOrder order], failure InternalError 500)
                          | Response order_code reply \<Rightarrow>
                              if order_code = 200
                              then
                                (let order_result = reply_json reply;
                                     order_id = get_or (res_orderId order_result) ''unknown'';
                                     row = \<lparr>tr_symbol = symb,
                                            tr_order_id = order_id,
                                            tr_side = od_side order,
                                            tr_qty = od_quantity order,
                                            tr_price = 0,
                                            tr_status = ''SUCCESS'',
                                            tr_response = order_result,
                                            tr_order_type = ''MARKET'',
                                            tr_parent_order_id = None,
                                            tr_filled_qty = od_quantity order,
                                            tr_avg_price = get_or (avgPrice order_result) 0\<rparr>
                                 in ([GetPositionRisk, PostOrder order, InsertTrade row],
                                     (case insert_trade env row of
                                        Inl e \<Rightarrow> accepted order_id order
                                      | Inr u \<Rightarrow> accepted order_id order)))
                              else ([GetPositionRisk, PostOrder order],
                                    failure (OrderFailed (reply_text reply)) order_code)))))"

section \<open>The sources of the summary\<close>

text \<open>
  The four figures of the summary as a function of the live position alone, and as a
  function of the ledger's tranches and the configured leverage alone: the bodies of the
  first two branches of lines 240 to 282.
\<close>

type_synonym figures = "real \<times> real \<times> real \<times> real"

definition summary_figures :: "summary \<Rightarrow> figures" where
  "summary_figures s =
     (summary_total_quantity s, summary_avg_entry_price s, summary_unrealized_pnl s,
      summary_total_margin s)"

definition live_figures :: "exchange_position \<Rightarrow> figures" where
  "live_figures p =
     (\<bar>get_or (positionAmt p) 0\<bar>,
      get_or (entryPrice p) 0,
      (if get_or (positionAmt p) 0 > 0
       then (get_or (markPrice p) 0 - get_or (entryPrice p) 0) * get_or (positionAmt p) 0
       else if get_or (positionAmt p) 0 < 0
       then (get_or (entryPrice p) 0 - get_or (markPrice p) 0) * \<bar>get_or (positionAmt p) 0\<bar>
       else 0),
      get_or (initialMargin p) 0)"

definition weighted_entry_price :: "tranche list \<Rightarrow> real" where
  "weighted_entry_price ts =
     (if sum_list (map total_quantity ts) > 0
      then sum_list (map (\<lambda>t. avg_entry_price t * total_quantity t) ts)
             / sum_list (map total_quantity ts)
      else 0)"

definition tranche_figures :: "tranche list \<Rightarrow> int \<Rightarrow> figures" where
  "tranche_figures ts leverage =
     (sum_list (map total_quantity ts),
      weighted_entry_price ts,
      sum_list (map unrealized_pnl ts),
      (if leverage > 0
       then sum_list (map total_quantity ts) * weighted_entry_price ts / real_of_int leverage
       else 0))"

text \<open>The tranche rows of the symbol and side as the ledger stores them.\<close>

definition ledger_tranches :: "string \<Rightarrow> string \<Rightarrow> read_env \<Rightarrow> tranche list" where
  "ledger_tranches symb side env =
     (if has_position_tranches env then select_tranches symb side (position_tranches env)
      else [])"

section \<open>The latest relationship row of a tranche\<close>


section \<open>Scenarios\<close>

text \<open>The position of scenario A, alone in the exchange's answer, and an empty ledger.\<close>

definition scenario_A_position :: exchange_position where
  "scenario_A_position =
     \<lparr>pos_symbol = ''BTCUSDT'', positionAmt = Some (3 / 2), entryPrice = Some 30000,
      markPrice = Some 31000, pos_leverage = None, initialMargin = Some 4500,
      positionSide = Some ''LONG''\<rparr>"


text \<open>
  Scenario B: no live position for the symbol, and two LONG tranches in the ledger. The
  second scenario has the same ledger under the live position of scenario A.
\<close>

definition tranche_1 :: tranche where
  "tranche_1 =
     \<lparr>tranche_id = 1, symbol = ''BTCUSDT'', position_side = ''LONG'', total_quantity = 1,
      avg_entry_price = 100, tp_order_id = None, sl_order_id = None, unrealized_pnl = 10\<rparr>"

definition tranche_2 :: tranche where
  "tranche_2 =
     \<lparr>tranche_id = 2, symbol = ''BTCUSDT'', position_side = ''LONG'', total_quantity = 1,
      avg_entry_price = 120, tp_order_id = None, sl_order_id = None, unrealized_pnl = - 5\<rparr>"

definition scenario_B :: read_env where
  "scenario_B =
     \<lparr>API_KEY = ''key'', API_SECRET = ''secret'',
      position_risk = Response 200 [],
      open_orders = Response 200 [],
      has_position_tranches = True, position_tranches = [tranche_1, tranche_2],
      order_relationships = [], order_status = [], read_config = None\<rparr>"

definition scenario_live_with_ledger :: read_env where
  "scenario_live_with_ledger = scenario_B\<lparr>position_risk := Response 200 [scenario_A_position]\<rparr>"

text \<open>
  The ledger of scenario B read under a configuration that gives the symbol a leverage.
\<close>

definition configured :: "int \<Rightarrow> config" where
  "configured l =
     \<lparr>SYMBOL_SETTINGS = [''BTCUSDT'' \<mapsto> \<lparr>cfg_leverage = Some l\<rparr>], SIMULATE_ONLY = False\<rparr>"

definition scenario_B_leverage :: "int \<Rightarrow> read_env" where
  "scenario_B_leverage l = scenario_B\<lparr>read_config := Some (configured l)\<rparr>"

text \<open>
  Closing: a one-way position (\<^verbatim>\<open>positionSide\<close> \<^verbatim>\<open>BOTH\<close>) of 2 units long, a hedge-mode
  position of 3 units short, an exchange that accepts the order, and the two settings of the
  simulation flag.
\<close>

definition one_way_long :: exchange_position where
  "one_way_long =
     \<lparr>pos_symbol = ''BTCUSDT'', positionAmt = Some 2, entryPrice = Some 100,
      markPrice = Some 110, pos_leverage = Some 10, initialMargin = Some 20,
      positionSide = Some ''BOTH''\<rparr>"

definition hedge_short :: exchange_position where
  "hedge_short =
     \<lparr>pos_symbol = ''BTCUSDT'', positionAmt = Some (- 3), entryPrice = Some 100,
      markPrice = Some 90, pos_leverage = Some 10, initialMargin = Some 30,
      positionSide = Some ''SHORT''\<rparr>"

definition simulating :: config where
  "simulating = \<lparr>SYMBOL_SETTINGS = Map.empty, SIMULATE_ONLY = True\<rparr>"

definition trading :: config where
  "trading = \<lparr>SYMBOL_SETTINGS = Map.empty, SIMULATE_ONLY = False\<rparr>"

definition order_accepted :: "order_reply http" where
  "order_accepted =
     Response 200 \<lparr>reply_json = \<lparr>res_orderId = Some ''9001'', avgPrice = Some 110\<rparr>,
                   reply_text = []\<rparr>"

definition close_simulated :: close_env where
  "close_simulated =
     \<lparr>close_position_risk = Response 200 [one_way_long], close_config = Some simulating,
      order_response = order_accepted, insert_trade_raises = False\<rparr>"

definition close_simulated_flat :: close_env where
  "close_simulated_flat = close_simulated\<lparr>close_position_risk := Response 200 []\<rparr>"

definition close_one_way :: close_env where
  "close_one_way = close_simulated\<lparr>close_config := Some trading\<rparr>"

definition close_hedge :: close_env where
  "close_hedge = close_one_way\<lparr>close_position_risk := Response 200 [hedge_short]\<rparr>"

definition close_ledger_down :: close_env where
  "close_ledger_down = close_one_way\<lparr>insert_trade_raises := True\<rparr>"

text \<open>
  Relationships: tranche 1 has two relationship rows, the older with the ids 111 and 112,
  the newer with 211 and 212. Order 211 is open on the exchange; order 111 is only in the
  order-status cache. The same ledger is also read without an API key, and the ledger of
  scenario B is read for LONG while the exchange reports only the hedge-mode short.
\<close>

definition rel_old :: order_relationship where
  "rel_old =
     \<lparr>rel_symbol = ''BTCUSDT'', rel_position_side = Some ''LONG'', rel_tranche_id = Some 1,
      rel_tp_order_id = Some ''111'', rel_sl_order_id = Some ''112'', created_at = 1\<rparr>"

definition rel_new :: order_relationship where
  "rel_new =
     \<lparr>rel_symbol = ''BTCUSDT'', rel_position_side = Some ''LONG'', rel_tranche_id = Some 1,
      rel_tp_order_id = Some ''211'', rel_sl_order_id = Some ''212'', created_at = 2\<rparr>"

definition cached_111 :: order_status_row where
  "cached_111 =
     \<lparr>os_order_id = ''111'', os_symbol = ''BTCUSDT'', os_side = Some ''SELL'', os_quantity = 1,
      os_price = Some ''105'', os_position_side = Some ''LONG'', os_status = Some ''CANCELED''\<rparr>"

definition open_211 :: open_order where
  "open_211 =
     \<lparr>orderId = Some ''211'', oo_type = Some ''LIMIT'', oo_status = Some ''NEW'',
      origQty = Some 1, oo_price = Some ''108'', stopPrice = None, oo_side = Some ''SELL'',
      executedQty = Some 0\<rparr>"

definition scenario_relationships :: read_env where
  "scenario_relationships =
     \<lparr>API_KEY = ''key'', API_SECRET = ''secret'',
      position_risk = Response 200 [],
      open_orders = Response 200 [open_211],
      has_position_tranches = True, position_tranches = [tranche_1],
      order_relationships = [rel_old, rel_new], order_status = [cached_111],
      read_config = None\<rparr>"

definition scenario_no_credentials :: read_env where
  "scenario_no_credentials = scenario_relationships\<lparr>API_KEY := []\<rparr>"

definition read_other_side :: read_env where
  "read_other_side = scenario_B\<lparr>position_risk := Response 200 [hedge_short]\<rparr>"


section \<open>Helper facts\<close>

lemma find_exchange_position_SomeD:
  assumes "find_exchange_position symb r = Some p"
  shows "pos_symbol p = symb" and "get_or (positionAmt p) 0 \<noteq> 0"
    and "\<exists>positions. r = Response 200 positions \<and> p \<in> set positions"
  using assms
  by (auto simp: find_exchange_position_def find_Some_iff split: http.splits if_splits)

lemma aggregate_live:
  "aggregate symb cfg (Some p) ts =
     Inr \<lparr>summary_total_quantity = \<bar>get_or (positionAmt p) 0\<bar>,
          summary_avg_entry_price = get_or (entryPrice p) 0,
          summary_unrealized_pnl =
            (if get_or (positionAmt p) 0 > 0
             then (get_or (markPrice p) 0 - get_or (entryPrice p) 0) * get_or (positionAmt p) 0
             else if get_or (positionAmt p) 0 < 0
             then (get_or (entryPrice p) 0 - get_or (markPrice p) 0) * \<bar>get_or (positionAmt p) 0\<bar>
             else 0),
          summary_total_margin = get_or (initialMargin p) 0,
          num_tranches = length ts\<rparr>"
  by (simp add: aggregate_def Let_def)

lemma get_position_details_summary:
  "aggregate symb (read_config env) (find_exchange_position symb (position_risk env))
     (load_tranches symb side env (find_exchange_position symb (position_risk env))) = Inr s
   \<Longrightarrow> \<exists>r. snd (get_position_details symb side env) = Inr r \<and> resp_summary r = s
          \<and> resp_tranches r =
              load_tranches symb side env (find_exchange_position symb (position_risk env))"
  by (simp add: get_position_details_def Let_def case_prod_beta)

lemma update_tranche_frame [simp]:
  "tranche_id (update_tranche symb side rows t) = tranche_id t"
  "symbol (update_tranche symb side rows t) = symbol t"
  "position_side (update_tranche symb side rows t) = position_side t"
  "total_quantity (update_tranche symb side rows t) = total_quantity t"
  "avg_entry_price (update_tranche symb side rows t) = avg_entry_price t"
  "unrealized_pnl (update_tranche symb side rows t) = unrealized_pnl t"
  by (simp_all add: update_tranche_def split: option.splits)

lemma load_tranches_None:
  "load_tranches symb side env None =
     map (update_tranche symb side (order_relationships env)) (ledger_tranches symb side env)"
  by (simp add: load_tranches_def ledger_tranches_def)

lemma load_tranches_Some:
  "load_tranches symb side env (Some p) =
     map (\<lambda>t. (update_tranche symb side (order_relationships env) t)\<lparr>unrealized_pnl := 0\<rparr>)
         (ledger_tranches symb side env)"
  by (simp add: load_tranches_def ledger_tranches_def)

lemma weighted_entry_price_update [simp]:
  "weighted_entry_price (map (update_tranche symb side rows) ts) = weighted_entry_price ts"
  by (simp add: weighted_entry_price_def comp_def)

lemma aggregate_ledger:
  assumes "ts \<noteq> []"
  shows "aggregate symb cfg None ts =
     Inr \<lparr>summary_total_quantity = sum_list (map total_quantity ts),
          summary_avg_entry_price = weighted_entry_price ts,
          summary_unrealized_pnl = sum_list (map unrealized_pnl ts),
          summary_total_margin =
            (if config_leverage cfg symb > 0
             then sum_list (map total_quantity ts) * weighted_entry_price ts
                    / real_of_int (config_leverage cfg symb)
             else 0),
          num_tranches = length ts\<rparr>"
  using assms by (simp add: aggregate_def Let_def py_div_def weighted_entry_price_def)

lemma aggregate_nothing:
  "aggregate symb cfg None [] =
     Inr \<lparr>summary_total_quantity = 0, summary_avg_entry_price = 0, summary_unrealized_pnl = 0,
          summary_total_margin = 0, num_tranches = 0\<rparr>"
  by (simp add: aggregate_def)

lemma get_position_details_ledger:
  assumes "find_exchange_position symb (position_risk env) = None"
    and "ledger_tranches symb side env \<noteq> []"
  shows "\<exists>r. snd (get_position_details symb side env) = Inr r
           \<and> summary_figures (resp_summary r) =
               tranche_figures (ledger_tranches symb side env)
                 (config_leverage (read_config env) symb)"
proof -
  let ?ts = "load_tranches symb side env None"
  have ne: "?ts \<noteq> []"
    using assms(2) by (simp add: load_tranches_None)
  from get_position_details_summary [of symb env side, unfolded assms(1), OF aggregate_ledger [OF ne]]
  obtain r where r: "snd (get_position_details symb side env) = Inr r"
    and s: "resp_summary r =
      \<lparr>summary_total_quantity = sum_list (map total_quantity ?ts),
       summary_avg_entry_price = weighted_entry_price ?ts,
       summary_unrealized_pnl = sum_list (map unrealized_pnl ?ts),
       summary_total_margin =
         (if config_leverage (read_config env) symb > 0
          then sum_list (map total_quantity ?ts) * weighted_entry_price ?ts
                 / real_of_int (config_leverage (read_config env) symb)
          else 0),
       num_tranches = length ?ts\<rparr>"
    by blast
  have "summary_figures (resp_summary r) =
          tranche_figures (ledger_tranches symb side env) (config_leverage (read_config env) symb)"
    by (simp add: s summary_figures_def tranche_figures_def load_tranches_None comp_def)
  with r show ?thesis by blast
qed

lemma aggregate_returns: "\<exists>s. aggregate symb cfg ep ts = Inr s"
proof (cases ep)
  case None
  then show ?thesis
    by (cases "ts = []") (simp_all add: aggregate_nothing aggregate_ledger)
next
  case (Some p)
  then show ?thesis by (simp add: aggregate_live)
qed

lemma get_position_details_returns:
  "\<exists>r. snd (get_position_details symb side env) = Inr r
        \<and> resp_tranches r =
            load_tranches symb side env (find_exchange_position symb (position_risk env))
        \<and> resp_order_relationships r =
            select_order_relationships symb side (order_relationships env)
        \<and> resp_order_statuses r =
            snd (load_order_statuses symb env
                   (load_tranches symb side env (find_exchange_position symb (position_risk env)))
                   (select_order_relationships symb side (order_relationships env)))"
proof -
  obtain s where
    "aggregate symb (read_config env) (find_exchange_position symb (position_risk env))
       (load_tranches symb side env (find_exchange_position symb (position_risk env))) = Inr s"
    using aggregate_returns by blast
  then show ?thesis
    by (simp add: get_position_details_def Let_def case_prod_beta)
qed

lemma get_position_details_live:
  assumes "find_exchange_position symb (position_risk env) = Some p"
  shows "\<exists>r. snd (get_position_details symb side env) = Inr r
           \<and> summary_figures (resp_summary r) = live_figures p
           \<and> resp_tranches r = load_tranches symb side env (Some p)"
proof -
  from get_position_details_summary [of symb env side, unfolded assms, OF aggregate_live]
  obtain r where "snd (get_position_details symb side env) = Inr r"
    and "summary_figures (resp_summary r) = live_figures p"
    and "resp_tranches r = load_tranches symb side env (Some p)"
    by (auto simp: summary_figures_def live_figures_def)
  then show ?thesis by blast
qed

lemma get_position_details_nothing:
  assumes "find_exchange_position symb (position_risk env) = None"
    and "ledger_tranches symb side env = []"
  shows "\<exists>r. snd (get_position_details symb side env) = Inr r
           \<and> summary_figures (resp_summary r) = (0, 0, 0, 0)"
proof -
  have "load_tranches symb side env None = []"
    using assms(2) by (simp add: load_tranches_None)
  with get_position_details_summary [of symb env side, unfolded assms(1)] aggregate_nothing
  obtain r where "snd (get_position_details symb side env) = Inr r"
    and "summary_figures (resp_summary r) = (0, 0, 0, 0)"
    by (fastforce simp: summary_figures_def)
  then show ?thesis by blast
qed

lemma find_target_SomeD:
  assumes "find_target symb side positions = Some pos"
  shows "pos \<in> set positions" and "pos_symbol pos = symb"
    and "get_or (positionAmt pos) 0 \<noteq> 0"
    and "side \<noteq> ''BOTH'' \<Longrightarrow>
           side = (if get_or (positionAmt pos) 0 > 0 then ''LONG'' else ''SHORT'')"
  using assms
  by (induction positions) (auto simp: Let_def split: if_splits)

lemma close_position_simulating:
  assumes "simulate_only (close_config env)"
  shows "close_position symb side env =
     (case close_position_risk env of
        Raised \<Rightarrow> ([GetPositionRisk], failure InternalError 500)
      | Response code positions \<Rightarrow>
          if code \<noteq> 200 then ([GetPositionRisk], failure (FetchFailed code) code)
          else
            (case find_target symb side positions of
               None \<Rightarrow> ([GetPositionRisk], failure PositionNotFound 404)
             | Some target_position \<Rightarrow>
                 ([GetPositionRisk],
                  \<lparr>success = True, simulated = Some True, res_order_id = None,
                   res_order_side = None, res_quantity = None, error = None,
                   status_code = 200\<rparr>)))"
  using assms
  by (auto simp: close_position_def Let_def dest: find_target_SomeD(3)
        split: http.splits option.splits)

lemma close_position_submitting:
  assumes "close_position_risk env = Response 200 positions"
    and "find_target symb side positions = Some pos"
    and "\<not> simulate_only (close_config env)"
  shows "close_position symb side env =
     (case order_response env of
        Raised \<Rightarrow>
          ([GetPositionRisk, PostOrder (closing_order symb pos)], failure InternalError 500)
      | Response order_code reply \<Rightarrow>
          if order_code = 200
          then
            ([GetPositionRisk, PostOrder (closing_order symb pos),
              InsertTrade
                \<lparr>tr_symbol = symb,
                 tr_order_id = get_or (res_orderId (reply_json reply)) ''unknown'',
                 tr_side = od_side (closing_order symb pos),
                 tr_qty = od_quantity (closing_order symb pos),
                 tr_price = 0,
                 tr_status = ''SUCCESS'',
                 tr_response = reply_json reply,
                 tr_order_type = ''MARKET'',
                 tr_parent_order_id = None,
                 tr_filled_qty = od_quantity (closing_order symb pos),
                 tr_avg_price = get_or (avgPrice (reply_json reply)) 0\<rparr>],
             accepted (get_or (res_orderId (reply_json reply)) ''unknown'')
               (closing_order symb pos))
          else ([GetPositionRisk, PostOrder (closing_order symb pos)],
                failure (OrderFailed (reply_text reply)) order_code))"
  using assms find_target_SomeD(3) [OF assms(2)]
  by (simp add: close_position_def Let_def split: http.splits sum.splits)










lemma load_order_statuses_no_credentials:
  assumes "API_KEY env = [] \<or> API_SECRET env = []"
  shows "load_order_statuses symb env ts rels = ([], Map.empty)"
  using assms by (auto simp: load_order_statuses_def Let_def)







section \<open>The summary of a live position\<close>



section \<open>The summary from the ledger\<close>

text \<open>
  C3. Whenever the read finds no live exchange position and the ledger has tranches for
  the symbol and side, it answers (no division raises, whatever the leverage), and the
  summary has: as total quantity the sum of the tranches' quantities; as average entry
  price their quantity-weighted mean entry price when the total quantity is positive and 0
  when it is 0 (or below); as unrealized PnL the sum of the tranches' stored PnL; as total
  margin \<open>total_quantity * avg_entry_price / leverage\<close> when the leverage is positive and
  0 when it is 0 (or below). The leverage is the one the configuration gives the symbol,
  and 10 when the configuration cannot be read, has nothing for the symbol, or has
  settings for the symbol without a leverage.
\<close>

theorem ledger_summary:
  fixes symb side :: string and env :: read_env
  defines "ts \<equiv> ledger_tranches symb side env"
    and "lev \<equiv> config_leverage (read_config env) symb"
  assumes "find_exchange_position symb (position_risk env) = None"
    and "ledger_tranches symb side env \<noteq> []"
  shows "\<exists>r. snd (get_position_details symb side env) = Inr r
           \<and> summary_total_quantity (resp_summary r) = sum_list (map total_quantity ts)
           \<and> (0 < sum_list (map total_quantity ts) \<longrightarrow>
                summary_avg_entry_price (resp_summary r) =
                  sum_list (map (\<lambda>t. avg_entry_price t * total_quantity t) ts)
                    / sum_list (map total_quantity ts))
           \<and> (sum_list (map total_quantity ts) \<le> 0 \<longrightarrow>
                summary_avg_entry_price (resp_summary r) = 0)
           \<and> summary_unrealized_pnl (resp_summary r) = sum_list (map unrealized_pnl ts)
           \<and> (0 < lev \<longrightarrow>
                summary_total_margin (resp_summary r) =
                  summary_total_quantity (resp_summary r)
                    * summary_avg_entry_price (resp_summary r) / real_of_int lev)
           \<and> (lev \<le> 0 \<longrightarrow> summary_total_margin (resp_summary r) = 0)
           \<and> (read_config env = None \<longrightarrow> lev = 10)
           \<and> (\<forall>c. read_config env = Some c \<and> SYMBOL_SETTINGS c symb = None \<longrightarrow> lev = 10)
           \<and> (\<forall>c s. read_config env = Some c \<and> SYMBOL_SETTINGS c symb = Some s
                      \<and> cfg_leverage s = None \<longrightarrow> lev = 10)
           \<and> (\<forall>c s l. read_config env = Some c \<and> SYMBOL_SETTINGS c symb = Some s
                      \<and> cfg_leverage s = Some l \<longrightarrow> lev = l)"
proof -
  from get_position_details_ledger [OF assms(3,4)]
  obtain r where r: "snd (get_position_details symb side env) = Inr r"
    and f: "summary_figures (resp_summary r) = tranche_figures ts lev"
    unfolding ts_def lev_def by blast
  have lev_default: "read_config env = None \<longrightarrow> lev = 10"
    "\<forall>c. read_config env = Some c \<and> SYMBOL_SETTINGS c symb = None \<longrightarrow> lev = 10"
    "\<forall>c s. read_config env = Some c \<and> SYMBOL_SETTINGS c symb = Some s
            \<and> cfg_leverage s = None \<longrightarrow> lev = 10"
    by (simp_all add: lev_def config_leverage_def get_or_def)
  have lev_configured:
    "\<forall>c s l. read_config env = Some c \<and> SYMBOL_SETTINGS c symb = Some s
            \<and> cfg_leverage s = Some l \<longrightarrow> lev = l"
    by (simp add: lev_def config_leverage_def get_or_def)
  from f have figures:
    "summary_total_quantity (resp_summary r) = sum_list (map total_quantity ts)"
    "summary_avg_entry_price (resp_summary r) = weighted_entry_price ts"
    "summary_unrealized_pnl (resp_summary r) = sum_list (map unrealized_pnl ts)"
    "summary_total_margin (resp_summary r) =
       (if lev > 0
        then sum_list (map total_quantity ts) * weighted_entry_price ts / real_of_int lev
        else 0)"
    by (simp_all add: summary_figures_def tranche_figures_def)
  have main: "summary_total_quantity (resp_summary r) = sum_list (map total_quantity ts)
        \<and> (0 < sum_list (map total_quantity ts) \<longrightarrow>
             summary_avg_entry_price (resp_summary r) =
               sum_list (map (\<lambda>t. avg_entry_price t * total_quantity t) ts)
                 / sum_list (map total_quantity ts))
        \<and> (sum_list (map total_quantity ts) \<le> 0 \<longrightarrow>
             summary_avg_entry_price (resp_summary r) = 0)
        \<and> summary_unrealized_pnl (resp_summary r) = sum_list (map unrealized_pnl ts)
        \<and> (0 < lev \<longrightarrow>
             summary_total_margin (resp_summary r) =
               summary_total_quantity (resp_summary r)
                 * summary_avg_entry_price (resp_summary r) / real_of_int lev)
        \<and> (lev \<le> 0 \<longrightarrow> summary_total_margin (resp_summary r) = 0)"
    by (simp add: figures weighted_entry_price_def)
  show ?thesis
  proof (rule exI [of _ r], intro conjI)
    show "snd (get_position_details symb side env) = Inr r" by (rule r)
  qed (use main lev_default lev_configured in simp_all)
qed

text \<open>
  Scenario B: quantities 1 and 1, entries 100 and 120, stored PnL 10 and -5. Without a
  configuration the leverage is 10: average entry 110, PnL 5, margin 2 * 110 / 10. With the
  leverage configured as 5 the margin is 2 * 110 / 5, and with the leverage configured as 0
  the read still answers and the margin is 0.
\<close>

theorem ledger_summary_witness:
  "find_exchange_position ''BTCUSDT'' (position_risk scenario_B) = None
   \<and> ledger_tranches ''BTCUSDT'' ''LONG'' scenario_B \<noteq> []
   \<and> (\<exists>r. snd (get_position_details ''BTCUSDT'' ''LONG'' scenario_B) = Inr r
          \<and> summary_total_quantity (resp_summary r) = 2
          \<and> summary_avg_entry_price (resp_summary r) = 110
          \<and> summary_unrealized_pnl (resp_summary r) = 5
          \<and> summary_total_margin (resp_summary r) = 22)
   \<and> find_exchange_position ''BTCUSDT'' (position_risk (scenario_B_leverage 5)) = None
   \<and> ledger_tranches ''BTCUSDT'' ''LONG'' (scenario_B_leverage 5) \<noteq> []
   \<and> config_leverage (read_config (scenario_B_leverage 5)) ''BTCUSDT'' = 5
   \<and> (\<exists>r. snd (get_position_details ''BTCUSDT'' ''LONG'' (scenario_B_leverage 5)) = Inr r
          \<and> summary_total_quantity (resp_summary r) = 2
          \<and> summary_avg_entry_price (resp_summary r) = 110
          \<and> summary_total_margin (resp_summary r) = 44)
   \<and> find_exchange_position ''BTCUSDT'' (position_risk (scenario_B_leverage 0)) = None
   \<and> ledger_tranches ''BTCUSDT'' ''LONG'' (scenario_B_leverage 0) \<noteq> []
   \<and> config_leverage (read_config (scenario_B_leverage 0)) ''BTCUSDT'' = 0
   \<and> (\<exists>r. snd (get_position_details ''BTCUSDT'' ''LONG'' (scenario_B_leverage 0)) = Inr r
          \<and> summary_total_quantity (resp_summary r) = 2
          \<and> summary_avg_entry_price (resp_summary r) = 110
          \<and> summary_total_margin (resp_summary r) = 0)"
proof -
  have none: "find_exchange_position ''BTCUSDT'' (position_risk scenario_B) = None"
    by (simp add: find_exchange_position_def scenario_B_def)
  have ts: "ledger_tranches ''BTCUSDT'' ''LONG'' scenario_B = [tranche_1, tranche_2]"
    by (simp add: ledger_tranches_def select_tranches_def scenario_B_def tranche_1_def tranche_2_def)
  have ne: "ledger_tranches ''BTCUSDT'' ''LONG'' scenario_B \<noteq> []"
    by (simp add: ts)
  have cfg: "read_config scenario_B = None"
    by (simp add: scenario_B_def)
  have none_l: "find_exchange_position ''BTCUSDT'' (position_risk (scenario_B_leverage l)) = None"
    for l
    by (simp add: find_exchange_position_def scenario_B_leverage_def scenario_B_def)
  have ts_l: "ledger_tranches ''BTCUSDT'' ''LONG'' (scenario_B_leverage l) = [tranche_1, tranche_2]"
    for l
    by (simp add: ledger_tranches_def select_tranches_def scenario_B_leverage_def scenario_B_def
          tranche_1_def tranche_2_def)
  have ne_l: "ledger_tranches ''BTCUSDT'' ''LONG'' (scenario_B_leverage l) \<noteq> []" for l
    by (simp add: ts_l)
  have cfg_l: "read_config (scenario_B_leverage l) = Some (configured l)
               \<and> SYMBOL_SETTINGS (configured l) ''BTCUSDT'' = Some \<lparr>cfg_leverage = Some l\<rparr>
               \<and> cfg_leverage \<lparr>cfg_leverage = Some l\<rparr> = Some l" for l
    by (simp add: scenario_B_leverage_def configured_def)
  from ledger_summary [OF none ne]
  have default: "\<exists>r. snd (get_position_details ''BTCUSDT'' ''LONG'' scenario_B) = Inr r
          \<and> summary_total_quantity (resp_summary r) = 2
          \<and> summary_avg_entry_price (resp_summary r) = 110
          \<and> summary_unrealized_pnl (resp_summary r) = 5
          \<and> summary_total_margin (resp_summary r) = 22"
    by (auto simp: none ts cfg tranche_1_def tranche_2_def)
  from ledger_summary [OF none_l ne_l, of 5] cfg_l [of 5]
  have lev5: "config_leverage (read_config (scenario_B_leverage 5)) ''BTCUSDT'' = 5"
    by blast
  from ledger_summary [OF none_l ne_l, of 5]
  have five: "\<exists>r. snd (get_position_details ''BTCUSDT'' ''LONG'' (scenario_B_leverage 5)) = Inr r
          \<and> summary_total_quantity (resp_summary r) = 2
          \<and> summary_avg_entry_price (resp_summary r) = 110
          \<and> summary_total_margin (resp_summary r) = 44"
    unfolding lev5 by (auto simp: ts_l tranche_1_def tranche_2_def)
  from ledger_summary [OF none_l ne_l, of 0] cfg_l [of 0]
  have lev0: "config_leverage (read_config (scenario_B_leverage 0)) ''BTCUSDT'' = 0"
    by blast
  from ledger_summary [OF none_l ne_l, of 0]
  have zero: "\<exists>r. snd (get_position_details ''BTCUSDT'' ''LONG'' (scenario_B_leverage 0)) = Inr r
          \<and> summary_total_quantity (resp_summary r) = 2
          \<and> summary_avg_entry_price (resp_summary r) = 110
          \<and> summary_total_margin (resp_summary r) = 0"
    unfolding lev0 by (auto simp: ts_l tranche_1_def tranche_2_def)
  from none ne default none_l ne_l lev5 five lev0 zero show ?thesis
    by blast
qed

section \<open>One source for the whole summary\<close>

text \<open>
  C2. Every read answers, and the four figures of its summary are together the figures of
  the live exchange position it found, or else together the figures computed from the
  ledger's tranches (and the configured leverage), or else, with neither, all zero.
\<close>

theorem summary_single_source:
  "\<exists>r. snd (get_position_details symb side env) = Inr r
        \<and> (case find_exchange_position symb (position_risk env) of
             Some p \<Rightarrow> summary_figures (resp_summary r) = live_figures p
           | None \<Rightarrow>
               if ledger_tranches symb side env \<noteq> []
               then summary_figures (resp_summary r) =
                      tranche_figures (ledger_tranches symb side env)
                        (config_leverage (read_config env) symb)
               else summary_figures (resp_summary r) = (0, 0, 0, 0))"
proof (cases "find_exchange_position symb (position_risk env)")
  case (Some p)
  with get_position_details_live [OF Some, of side] show ?thesis by auto
next
  case None
  show ?thesis
  proof (cases "ledger_tranches symb side env = []")
    case True
    with get_position_details_nothing [OF None True] None show ?thesis by auto
  next
    case False
    with get_position_details_ledger [OF None False] None show ?thesis by auto
  qed
qed

text \<open>
  With the ledger of scenario B, the figures are those of the tranches (2, 110, 5, 22)
  when the exchange reports nothing and those of the live position (1.5, 30000, 1500,
  4500) when it reports the position of scenario A.
\<close>

theorem summary_single_source_witness:
  "(\<exists>r. snd (get_position_details ''BTCUSDT'' ''LONG'' scenario_B) = Inr r
        \<and> summary_figures (resp_summary r) = (2, 110, 5, 22))
   \<and> (\<exists>r. snd (get_position_details ''BTCUSDT'' ''LONG'' scenario_live_with_ledger) = Inr r
        \<and> summary_figures (resp_summary r) = (3 / 2, 30000, 1500, 4500))"
proof -
  have none: "find_exchange_position ''BTCUSDT'' (position_risk scenario_B) = None"
    by (simp add: find_exchange_position_def scenario_B_def)
  have ts: "ledger_tranches ''BTCUSDT'' ''LONG'' scenario_B = [tranche_1, tranche_2]"
    by (simp add: ledger_tranches_def select_tranches_def scenario_B_def tranche_1_def tranche_2_def)
  have lev: "config_leverage (read_config scenario_B) ''BTCUSDT'' = 10"
    by (simp add: config_leverage_def scenario_B_def)
  have figs: "tranche_figures [tranche_1, tranche_2] 10 = (2, 110, 5, 22)"
    by (simp add: tranche_figures_def weighted_entry_price_def tranche_1_def tranche_2_def)
  have found: "find_exchange_position ''BTCUSDT'' (position_risk scenario_live_with_ledger)
                 = Some scenario_A_position"
    by (simp add: find_exchange_position_def scenario_live_with_ledger_def scenario_B_def
          scenario_A_position_def get_or_def)
  have live: "live_figures scenario_A_position = (3 / 2, 30000, 1500, 4500)"
    by (simp add: live_figures_def scenario_A_position_def get_or_def)
  from summary_single_source [of "''BTCUSDT''" "''LONG''" scenario_B]
  have "\<exists>r. snd (get_position_details ''BTCUSDT'' ''LONG'' scenario_B) = Inr r
          \<and> summary_figures (resp_summary r) = (2, 110, 5, 22)"
    by (simp add: none ts lev figs)
  moreover
  from summary_single_source [of "''BTCUSDT''" "''LONG''" scenario_live_with_ledger]
  have "\<exists>r. snd (get_position_details ''BTCUSDT'' ''LONG'' scenario_live_with_ledger) = Inr r
          \<and> summary_figures (resp_summary r) = (3 / 2, 30000, 1500, 4500)"
    by (simp add: found live)
  ultimately show ?thesis by blast
qed

section \<open>Tranche PnL under a live position\<close>

text \<open>
  C4. Whenever the read finds a live exchange position, every tranche of the answer has
  unrealized PnL 0, whatever the ledger stores, and the answer's tranches carry, one for
  one and in order, the ids, quantities and entry prices of the ledger's tranches.
\<close>

theorem live_position_zeroes_tranche_pnl:
  assumes "find_exchange_position symb (position_risk env) = Some p"
  shows "\<exists>r. snd (get_position_details symb side env) = Inr r
           \<and> (\<forall>t \<in> set (resp_tranches r). unrealized_pnl t = 0)
           \<and> map tranche_id (resp_tranches r) = map tranche_id (ledger_tranches symb side env)
           \<and> map total_quantity (resp_tranches r)
               = map total_quantity (ledger_tranches symb side env)
           \<and> map avg_entry_price (resp_tranches r)
               = map avg_entry_price (ledger_tranches symb side env)"
proof -
  from get_position_details_live [OF assms, of side]
  obtain r where r: "snd (get_position_details symb side env) = Inr r"
    and ts: "resp_tranches r = load_tranches symb side env (Some p)"
    by blast
  have "\<forall>t \<in> set (resp_tranches r). unrealized_pnl t = 0"
    by (auto simp: ts load_tranches_Some)
  moreover have "map tranche_id (resp_tranches r) = map tranche_id (ledger_tranches symb side env)"
    by (simp add: ts load_tranches_Some comp_def)
  moreover have "map total_quantity (resp_tranches r)
                   = map total_quantity (ledger_tranches symb side env)"
    by (simp add: ts load_tranches_Some comp_def)
  moreover have "map avg_entry_price (resp_tranches r)
                   = map avg_entry_price (ledger_tranches symb side env)"
    by (simp add: ts load_tranches_Some comp_def)
  ultimately show ?thesis using r by blast
qed

text \<open>
  The ledger of scenario B stores PnL 10 and -5; under the live position of scenario A the
  answer's two tranches have PnL 0 and keep quantities 1, 1 and entries 100, 120.
\<close>

theorem live_position_zeroes_tranche_pnl_witness:
  "find_exchange_position ''BTCUSDT'' (position_risk scenario_live_with_ledger)
     = Some scenario_A_position
   \<and> map unrealized_pnl (ledger_tranches ''BTCUSDT'' ''LONG'' scenario_live_with_ledger) = [10, - 5]
   \<and> (\<exists>r. snd (get_position_details ''BTCUSDT'' ''LONG'' scenario_live_with_ledger) = Inr r
          \<and> (\<forall>t \<in> set (resp_tranches r). unrealized_pnl t = 0)
          \<and> map total_quantity (resp_tranches r) = [1, 1]
          \<and> map avg_entry_price (resp_tranches r) = [100, 120])"
proof -
  have found: "find_exchange_position ''BTCUSDT'' (position_risk scenario_live_with_ledger)
                 = Some scenario_A_position"
    by (simp add: find_exchange_position_def scenario_live_with_ledger_def scenario_B_def
          scenario_A_position_def get_or_def)
  have ts: "ledger_tranches ''BTCUSDT'' ''LONG'' scenario_live_with_ledger = [tranche_1, tranche_2]"
    by (simp add: ledger_tranches_def select_tranches_def scenario_live_with_ledger_def
          scenario_B_def tranche_1_def tranche_2_def)
  from live_position_zeroes_tranche_pnl [OF found, of "''LONG''"]
  show ?thesis
    by (auto simp: found ts tranche_1_def tranche_2_def)
qed

section \<open>Closing in simulation mode\<close>

text \<open>
  C5, as stated, fails: with the simulation flag set the route still asks the exchange for
  the positions before it looks at the flag. For a position that is found the answer is the
  simulated success after that one call; for none it is the 404 failure.
\<close>

theorem simulated_close_fetches_positions:
  "simulate_only (close_config close_simulated)
   \<and> close_position ''BTCUSDT'' ''LONG'' close_simulated =
       ([GetPositionRisk],
        \<lparr>success = True, simulated = Some True, res_order_id = None, res_order_side = None,
         res_quantity = None, error = None, status_code = 200\<rparr>)
   \<and> simulate_only (close_config close_simulated_flat)
   \<and> close_position ''BTCUSDT'' ''LONG'' close_simulated_flat =
       ([GetPositionRisk],
        \<lparr>success = False, simulated = None, res_order_id = None, res_order_side = None,
         res_quantity = None, error = Some PositionNotFound, status_code = 404\<rparr>)"
  by (simp add: close_position_def close_simulated_def close_simulated_flat_def simulating_def
        simulate_only_def one_way_long_def get_or_def failure_def Let_def)

text \<open>
  C5, amended. For every close request issued while the simulation flag is set, the route
  makes exactly one call, the position fetch: no order is submitted and no trade is
  written. Its answer is a success exactly when that fetch answers 200 and a matching
  non-zero position is found, and every such success is marked simulated.
\<close>

theorem simulated_close:
  assumes "simulate_only (close_config env)"
  shows "fst (close_position symb side env) = [GetPositionRisk]
         \<and> (success (snd (close_position symb side env)) \<longleftrightarrow>
              (\<exists>positions pos. close_position_risk env = Response 200 positions
                                \<and> find_target symb side positions = Some pos))
         \<and> (success (snd (close_position symb side env)) \<longrightarrow>
              simulated (snd (close_position symb side env)) = Some True
              \<and> status_code (snd (close_position symb side env)) = 200)"
  by (auto simp: close_position_simulating [OF assms] failure_def
        split: http.splits option.splits)

theorem simulated_close_witness:
  "simulate_only (close_config close_simulated)
   \<and> fst (close_position ''BTCUSDT'' ''LONG'' close_simulated) = [GetPositionRisk]
   \<and> success (snd (close_position ''BTCUSDT'' ''LONG'' close_simulated))
   \<and> simulated (snd (close_position ''BTCUSDT'' ''LONG'' close_simulated)) = Some True"
proof -
  have flag: "simulate_only (close_config close_simulated)"
    by (simp add: close_simulated_def simulating_def simulate_only_def)
  have found: "close_position_risk close_simulated = Response 200 [one_way_long]
               \<and> find_target ''BTCUSDT'' ''LONG'' [one_way_long] = Some one_way_long"
    by (simp add: close_simulated_def one_way_long_def get_or_def)
  from simulated_close [OF flag, of "''BTCUSDT''" "''LONG''"] found
  show ?thesis
    using flag by blast
qed

section \<open>The closing order\<close>

text \<open>
  C6. Whenever a close locates a position and is not simulating, it submits exactly one
  order, right after the position fetch: a market order for the symbol whose quantity is
  the absolute amount of the position, whose side is SELL for a positive amount (a long
  position) and BUY for a negative one (a short position), so SELL for a request to close
  LONG and BUY for a request to close SHORT, whose \<^verbatim>\<open>positionSide\<close> is the position's
  own (\<^verbatim>\<open>BOTH\<close> when it has none), and which carries \<^verbatim>\<open>reduceOnly\<close> (as
  \<^verbatim>\<open>true\<close>) when that is \<^verbatim>\<open>BOTH\<close> and has no such field otherwise.
\<close>

theorem closing_order_submitted:
  assumes "close_position_risk env = Response 200 positions"
    and "find_target symb side positions = Some pos"
    and "\<not> simulate_only (close_config env)"
  shows "\<exists>order rest.
           fst (close_position symb side env) = GetPositionRisk # PostOrder order # rest
           \<and> (\<forall>c \<in> set rest. \<forall>other. c \<noteq> PostOrder other)
           \<and> od_symbol order = symb
           \<and> od_type order = ''MARKET''
           \<and> od_quantity order = \<bar>get_or (positionAmt pos) 0\<bar>
           \<and> od_side order = (if get_or (positionAmt pos) 0 > 0 then ''SELL'' else ''BUY'')
           \<and> (side = ''LONG'' \<longrightarrow> od_side order = ''SELL'')
           \<and> (side = ''SHORT'' \<longrightarrow> od_side order = ''BUY'')
           \<and> od_positionSide order = get_or (positionSide pos) ''BOTH''
           \<and> (od_positionSide order = ''BOTH'' \<longrightarrow> reduceOnly order = Some ''true'')
           \<and> (od_positionSide order \<noteq> ''BOTH'' \<longrightarrow> reduceOnly order = None)"
proof -
  let ?order = "closing_order symb pos"
  have "\<exists>rest. fst (close_position symb side env) = GetPositionRisk # PostOrder ?order # rest
                 \<and> (\<forall>c \<in> set rest. \<forall>other. c \<noteq> PostOrder other)"
    by (cases "order_response env") (simp_all add: close_position_submitting [OF assms])
  then obtain rest where calls: "fst (close_position symb side env) = GetPositionRisk # PostOrder ?order # rest"
    and rest: "\<forall>c \<in> set rest. \<forall>other. c \<noteq> PostOrder other"
    by blast
  have direction: "side = ''LONG'' \<longrightarrow> od_side ?order = ''SELL''"
    "side = ''SHORT'' \<longrightarrow> od_side ?order = ''BUY''"
    using find_target_SomeD(4) [OF assms(2)]
    by (auto simp: closing_order_def Let_def split: if_splits)
  have shape: "od_symbol ?order = symb" "od_type ?order = ''MARKET''"
    "od_quantity ?order = \<bar>get_or (positionAmt pos) 0\<bar>"
    "od_side ?order = (if get_or (positionAmt pos) 0 > 0 then ''SELL'' else ''BUY'')"
    "od_positionSide ?order = get_or (positionSide pos) ''BOTH''"
    "od_positionSide ?order = ''BOTH'' \<longrightarrow> reduceOnly ?order = Some ''true''"
    "od_positionSide ?order \<noteq> ''BOTH'' \<longrightarrow> reduceOnly ?order = None"
    by (simp_all add: closing_order_def Let_def)
  from calls rest direction shape show ?thesis
    by blast
qed

text \<open>
  Closing the hedge-mode short of 3 units submits BUY 3 with \<^verbatim>\<open>positionSide\<close>
  \<^verbatim>\<open>SHORT\<close> and no \<^verbatim>\<open>reduceOnly\<close>; closing the one-way long of 2 units submits SELL 2
  with \<^verbatim>\<open>positionSide\<close> \<^verbatim>\<open>BOTH\<close> and \<^verbatim>\<open>reduceOnly\<close>.
\<close>

theorem closing_order_submitted_witness:
  "close_position_risk close_hedge = Response 200 [hedge_short]
   \<and> find_target ''BTCUSDT'' ''SHORT'' [hedge_short] = Some hedge_short
   \<and> \<not> simulate_only (close_config close_hedge)
   \<and> (\<exists>rest. fst (close_position ''BTCUSDT'' ''SHORT'' close_hedge) =
          GetPositionRisk
          # PostOrder \<lparr>od_symbol = ''BTCUSDT'', od_side = ''BUY'', od_type = ''MARKET'',
                       od_quantity = 3, od_positionSide = ''SHORT'', reduceOnly = None\<rparr>
          # rest)
   \<and> close_position_risk close_one_way = Response 200 [one_way_long]
   \<and> find_target ''BTCUSDT'' ''LONG'' [one_way_long] = Some one_way_long
   \<and> \<not> simulate_only (close_config close_one_way)
   \<and> (\<exists>rest. fst (close_position ''BTCUSDT'' ''LONG'' close_one_way) =
          GetPositionRisk
          # PostOrder \<lparr>od_symbol = ''BTCUSDT'', od_side = ''SELL'', od_type = ''MARKET'',
                       od_quantity = 2, od_positionSide = ''BOTH'', reduceOnly = Some ''true''\<rparr>
          # rest)"
proof -
  have h1: "close_position_risk close_hedge = Response 200 [hedge_short]"
    by (simp add: close_hedge_def close_one_way_def close_simulated_def)
  have h2: "find_target ''BTCUSDT'' ''SHORT'' [hedge_short] = Some hedge_short"
    by (simp add: hedge_short_def get_or_def)
  have h3: "\<not> simulate_only (close_config close_hedge)"
    by (simp add: close_hedge_def close_one_way_def close_simulated_def trading_def
          simulate_only_def)
  have o1: "close_position_risk close_one_way = Response 200 [one_way_long]"
    by (simp add: close_one_way_def close_simulated_def)
  have o2: "find_target ''BTCUSDT'' ''LONG'' [one_way_long] = Some one_way_long"
    by (simp add: one_way_long_def get_or_def)
  have o3: "\<not> simulate_only (close_config close_one_way)"
    by (simp add: close_one_way_def close_simulated_def trading_def simulate_only_def)
  from closing_order_submitted [OF h1 h2 h3]
  have hedge: "\<exists>rest. fst (close_position ''BTCUSDT'' ''SHORT'' close_hedge) =
          GetPositionRisk
          # PostOrder \<lparr>od_symbol = ''BTCUSDT'', od_side = ''BUY'', od_type = ''MARKET'',
                       od_quantity = 3, od_positionSide = ''SHORT'', reduceOnly = None\<rparr>
          # rest"
    by (auto simp: hedge_short_def get_or_def)
  from closing_order_submitted [OF o1 o2 o3]
  have one_way: "\<exists>rest. fst (close_position ''BTCUSDT'' ''LONG'' close_one_way) =
          GetPositionRisk
          # PostOrder \<lparr>od_symbol = ''BTCUSDT'', od_side = ''SELL'', od_type = ''MARKET'',
                       od_quantity = 2, od_positionSide = ''BOTH'', reduceOnly = Some ''true''\<rparr>
          # rest"
    by (auto simp: one_way_long_def get_or_def)
  from h1 h2 h3 o1 o2 o3 hedge one_way show ?thesis by blast
qed

section \<open>A failing ledger write\<close>

text \<open>
  C9. Whenever a close locates a position, is not simulating, and the exchange answers the
  order with 200, the route answers success with the order id of the exchange's answer
  (\<^verbatim>\<open>unknown\<close> when it has none), the order side and the quantity, whether or not
  writing the trade to the ledger raises: the answer is the same in both cases.
\<close>

theorem accepted_close_ignores_ledger_failure:
  assumes "close_position_risk env = Response 200 positions"
    and "find_target symb side positions = Some pos"
    and "\<not> simulate_only (close_config env)"
    and "order_response env = Response 200 reply"
  shows "success (snd (close_position symb side env))
         \<and> res_order_id (snd (close_position symb side env))
             = Some (get_or (res_orderId (reply_json reply)) ''unknown'')
         \<and> error (snd (close_position symb side env)) = None
         \<and> status_code (snd (close_position symb side env)) = 200
         \<and> snd (close_position symb side (env\<lparr>insert_trade_raises := True\<rparr>))
             = snd (close_position symb side (env\<lparr>insert_trade_raises := False\<rparr>))"
proof -
  have "snd (close_position symb side (env\<lparr>insert_trade_raises := b\<rparr>))
          = accepted (get_or (res_orderId (reply_json reply)) ''unknown'') (closing_order symb pos)"
    for b
    using assms by (subst close_position_submitting [where positions = positions and pos = pos]) simp_all
  moreover have "snd (close_position symb side env)
          = accepted (get_or (res_orderId (reply_json reply)) ''unknown'') (closing_order symb pos)"
    using assms by (simp add: close_position_submitting [OF assms(1-3)])
  ultimately show ?thesis
    by (simp add: accepted_def)
qed

text \<open>
  The one-way long is closed with the ledger failing: the trade write is attempted and
  raises, and the answer is the success with order id 9001.
\<close>

theorem accepted_close_ignores_ledger_failure_witness:
  "close_position_risk close_ledger_down = Response 200 [one_way_long]
   \<and> find_target ''BTCUSDT'' ''LONG'' [one_way_long] = Some one_way_long
   \<and> \<not> simulate_only (close_config close_ledger_down)
   \<and> order_response close_ledger_down = order_accepted
   \<and> insert_trade_raises close_ledger_down
   \<and> success (snd (close_position ''BTCUSDT'' ''LONG'' close_ledger_down))
   \<and> res_order_id (snd (close_position ''BTCUSDT'' ''LONG'' close_ledger_down)) = Some ''9001''"
proof -
  have h1: "close_position_risk close_ledger_down = Response 200 [one_way_long]"
    by (simp add: close_ledger_down_def close_one_way_def close_simulated_def)
  have h2: "find_target ''BTCUSDT'' ''LONG'' [one_way_long] = Some one_way_long"
    by (simp add: one_way_long_def get_or_def)
  have h3: "\<not> simulate_only (close_config close_ledger_down)"
    by (simp add: close_ledger_down_def close_one_way_def close_simulated_def trading_def
          simulate_only_def)
  have h4: "order_response close_ledger_down =
              Response 200 \<lparr>reply_json = \<lparr>res_orderId = Some ''9001'', avgPrice = Some 110\<rparr>,
                            reply_text = []\<rparr>"
    by (simp add: close_ledger_down_def close_one_way_def close_simulated_def order_accepted_def)
  have h5: "insert_trade_raises close_ledger_down"
    by (simp add: close_ledger_down_def)
  from accepted_close_ignores_ledger_failure [OF h1 h2 h3 h4]
  show ?thesis
    using h1 h2 h3 h4 h5 by (simp add: order_accepted_def get_or_def)
qed

section \<open>Relationship rows and the id sets\<close>




section \<open>Reading without credentials\<close>

text \<open>
  C10. Whenever the API key or the API secret is empty, the read's only call is the position
  fetch (neither the open orders nor the order-status cache are asked), it answers, and
  its dictionary of order statuses is empty, whatever ids the ledger yields and whatever
  the cache holds.
\<close>

theorem no_credentials_no_order_statuses:
  assumes "API_KEY env = [] \<or> API_SECRET env = []"
  shows "fst (get_position_details symb side env) = [GetPositionRisk]
         \<and> (\<exists>r. snd (get_position_details symb side env) = Inr r
                \<and> resp_order_statuses r = Map.empty)"
proof -
  have "fst (get_position_details symb side env) = [GetPositionRisk]"
    by (simp add: get_position_details_def Let_def case_prod_beta
          load_order_statuses_no_credentials [OF assms])
  moreover
  from get_position_details_returns [of symb side env]
  have "\<exists>r. snd (get_position_details symb side env) = Inr r \<and> resp_order_statuses r = Map.empty"
    by (auto simp: load_order_statuses_no_credentials [OF assms])
  ultimately show ?thesis by blast
qed


text \<open>
  The relationship ledger read without an API key: ids, a matching open order and a cached
  row exist, and the dictionary is empty.
\<close>

theorem no_credentials_no_order_statuses_witness:
  "(API_KEY scenario_no_credentials = [] \<or> API_SECRET scenario_no_credentials = [])
   \<and> order_relationships scenario_no_credentials = [rel_old, rel_new]
   \<and> order_status scenario_no_credentials = [cached_111]
   \<and> open_orders scenario_no_credentials = Response 200 [open_211]
   \<and> fst (get_position_details ''BTCUSDT'' ''LONG'' scenario_no_credentials) = [GetPositionRisk]
   \<and> (\<exists>r. snd (get_position_details ''BTCUSDT'' ''LONG'' scenario_no_credentials) = Inr r
          \<and> resp_order_statuses r = Map.empty)"
proof -
  have key: "API_KEY scenario_no_credentials = [] \<or> API_SECRET scenario_no_credentials = []"
    by (simp add: scenario_no_credentials_def)
  have tables: "order_relationships scenario_no_credentials = [rel_old, rel_new]"
    "order_status scenario_no_credentials = [cached_111]"
    "open_orders scenario_no_credentials = Response 200 [open_211]"
    by (simp_all add: scenario_no_credentials_def scenario_relationships_def)
  from no_credentials_no_order_statuses [OF key, of "''BTCUSDT''" "''LONG''"] key tables
  show ?thesis by blast
qed

section \<open>The side of the live position\<close>

text \<open>
  C8 does not hold of the route. The search of lines 19 to 28 compares the symbol and the
  amount only. Asked for BTCUSDT LONG while the exchange reports only a SHORT position of
  3 units (entry 100, mark 90, margin 30), with two LONG tranches in the ledger whose
  figures are (2, 110, 5, 22), the read takes the short position: its summary is
  (3, 100, 30, 30) and the LONG tranches are shown with PnL 0.
\<close>

theorem read_takes_position_of_other_side:
  "find_exchange_position ''BTCUSDT'' (position_risk read_other_side) = Some hedge_short
   \<and> get_or (positionAmt hedge_short) 0 < 0
   \<and> positionSide hedge_short = Some ''SHORT''
   \<and> ledger_tranches ''BTCUSDT'' ''LONG'' read_other_side = [tranche_1, tranche_2]
   \<and> tranche_figures [tranche_1, tranche_2] (config_leverage (read_config read_other_side) ''BTCUSDT'')
       = (2, 110, 5, 22)
   \<and> (\<exists>r. snd (get_position_details ''BTCUSDT'' ''LONG'' read_other_side) = Inr r
          \<and> summary_figures (resp_summary r) = (3, 100, 30, 30)
          \<and> map unrealized_pnl (resp_tranches r) = [0, 0])"
proof -
  have found: "find_exchange_position ''BTCUSDT'' (position_risk read_other_side) = Some hedge_short"
    by (simp add: find_exchange_position_def read_other_side_def hedge_short_def get_or_def)
  have short: "get_or (positionAmt hedge_short) 0 < 0" "positionSide hedge_short = Some ''SHORT''"
    by (simp_all add: hedge_short_def get_or_def)
  have ts: "ledger_tranches ''BTCUSDT'' ''LONG'' read_other_side = [tranche_1, tranche_2]"
    by (simp add: ledger_tranches_def select_tranches_def read_other_side_def scenario_B_def
          tranche_1_def tranche_2_def)
  have figs: "tranche_figures [tranche_1, tranche_2]
                (config_leverage (read_config read_other_side) ''BTCUSDT'') = (2, 110, 5, 22)"
    by (simp add: tranche_figures_def weighted_entry_price_def tranche_1_def tranche_2_def
          config_leverage_def read_other_side_def scenario_B_def)
  have live: "live_figures hedge_short = (3, 100, 30, 30)"
    by (simp add: live_figures_def hedge_short_def get_or_def)
  from get_position_details_live [OF found, of "''LONG''"]
  have "\<exists>r. snd (get_position_details ''BTCUSDT'' ''LONG'' read_other_side) = Inr r
          \<and> summary_figures (resp_summary r) = (3, 100, 30, 30)
          \<and> map unrealized_pnl (resp_tranches r) = [0, 0]"
    by (auto simp: live load_tranches_Some ts)
  with found short ts figs show ?thesis by blast
qed

end
